theory Spec2Isabelle
  imports Complex_Main "HOL-Library.Sublist"
begin

section \<open>Data model (backend/server.py, lines 73-104)\<close>

text \<open>
  Conventions of the embedding.
  \<^item> A Python \<open>float\<close> is modelled as a real number: rounding, infinities and NaN are
    not modelled. The claims verified below are about comparisons of computed scores,
    about order and about control flow, none of which depends on rounding.
  \<^item> A timestamp is kept in its ISO-8601 text form, the form that is stored.
  \<^item> The \<open>products\<close> collection is the list of its documents in insertion order
    (the order in which an unsorted \<open>find\<close> returns them).
  \<^item> Reads of the collection (\<open>find\<close>, \<open>count_documents\<close>) are taken to succeed.
\<close>

type_synonym bytes = "char list"

text \<open>\<open>class Product(BaseModel)\<close>, lines 74-83.\<close>

record Product =
  prod_id :: string
  prod_name :: string
  prod_category :: string
  prod_image_url :: string
  prod_price :: "real option"
  prod_description :: "string option"
  prod_embedding :: "real list"
  prod_created_at :: string

text \<open>\<open>class ProductCreate(BaseModel)\<close>, lines 85-90.\<close>

record ProductCreate =
  pc_name :: string
  pc_category :: string
  pc_image_url :: string
  pc_price :: "real option"
  pc_description :: "string option"

text \<open>\<open>class SimilarProduct(BaseModel)\<close>, lines 92-99: one entry of a search result.\<close>

record SimilarProduct =
  sp_id :: string
  sp_name :: string
  sp_category :: string
  sp_image_url :: string
  sp_price :: "real option"
  sp_description :: "string option"
  similarity_score :: real

text \<open>
  \<open>class SearchRequest(BaseModel)\<close>, lines 101-104, with its field defaults. No route of
  the server takes a \<open>SearchRequest\<close>; it is recorded here because its default
  \<open>min_similarity\<close> differs from the one of the two search routes.
\<close>

record SearchRequest =
  sr_limit :: int
  sr_min_similarity :: real
  sr_category :: "string option"

definition SearchRequest_defaults :: SearchRequest where
  "SearchRequest_defaults =
     \<lparr>sr_limit = 10, sr_min_similarity = 0.5, sr_category = None\<rparr>"

text \<open>
  A document of the \<open>products\<close> collection, as \<open>find\<close> returns it: the dictionary
  written by \<open>model_dump\<close>. The search routes read \<open>id\<close>, \<open>name\<close>, \<open>category\<close> and
  \<open>image_url\<close> by subscript and \<open>price\<close>, \<open>description\<close> and \<open>embedding\<close> with
  \<open>.get\<close>, so for these three a missing key and the value \<open>None\<close> are the same
  (\<open>None\<close> here).
\<close>

record document =
  doc_id :: string
  doc_name :: string
  doc_category :: string
  doc_image_url :: string
  doc_price :: "real option"
  doc_description :: "string option"
  doc_embedding :: "real list option"
  doc_created_at :: string

text \<open>\<open>doc = product_obj.model_dump()\<close> followed by the ISO formatting of \<open>created_at\<close>.\<close>

definition model_dump :: "Product \<Rightarrow> document" where
  "model_dump p =
     \<lparr>doc_id = prod_id p, doc_name = prod_name p, doc_category = prod_category p,
      doc_image_url = prod_image_url p, doc_price = prod_price p,
      doc_description = prod_description p, doc_embedding = Some (prod_embedding p),
      doc_created_at = prod_created_at p\<rparr>"

section \<open>Errors\<close>

text \<open>
  The exceptions raised inside the routes' \<open>try\<close> blocks: the \<open>ValueError\<close> of the two
  image loaders (with its message), the \<open>ValueError\<close> that \<open>np.dot\<close> raises for two
  vectors of different lengths (with the two lengths), and any other exception of a
  collaborator (with its message).
\<close>

datatype exn = ValueError string | ShapeError nat nat | Exception string

text \<open>
  \<open>HTTPException(status_code, detail)\<close>. The detail is kept structured: the fixed text
  of the 503 response, or the route's prefix with the exception it reports.
\<close>

datatype detail = ClipNotAvailable | ErrorCreatingProduct exn | ErrorSearching exn

datatype http_error = HTTPException nat detail

section \<open>The collaborators and the state\<close>

text \<open>
  Everything outside the program is a parameter:
  \<^item> \<open>embedder\<close>: the global of lines 64-71, \<open>None\<close> when the model is not available or
    failed to load, otherwise its \<open>get_image_embedding\<close> (which may raise);
  \<^item> \<open>http_get\<close>: \<open>requests.get\<close> with \<open>raise_for_status\<close>, giving the body or raising;
  \<^item> \<open>image_open\<close>: \<open>Image.open(...).convert('RGB')\<close>, giving the image or raising;
  \<^item> \<open>uuid4\<close> and \<open>utcnow\<close>: the default factories of \<open>Product\<close>, as streams indexed by
    the number of products built so far;
  \<^item> \<open>insert_one_raises\<close>: whether \<open>insert_one\<close> raises on a document.
  \<open>Inl msg\<close> stands for an exception whose text is \<open>msg\<close>.
\<close>

record 'img world =
  embedder :: "('img \<Rightarrow> string + real list) option"
  http_get :: "string \<Rightarrow> string + bytes"
  image_open :: "bytes \<Rightarrow> string + 'img"
  uuid4 :: "nat \<Rightarrow> string"
  utcnow :: "nat \<Rightarrow> string"
  insert_one_raises :: "document \<Rightarrow> string option"

text \<open>
  The state the routes read and change: the collection, the URLs requested so far (a
  trace of the image fetches), and the number of \<open>Product\<close> objects built so far.
\<close>

record state =
  db_products :: "document list"
  fetched :: "string list"
  built :: nat

section \<open>Utility functions (lines 106-127)\<close>

definition load_image_from_url ::
  "'img world \<Rightarrow> string \<Rightarrow> state \<Rightarrow> (exn + 'img) \<times> state" where
  "load_image_from_url w url s =
     (let s' = s\<lparr>fetched := fetched s @ [url]\<rparr> in
      case http_get w url of
        Inl msg \<Rightarrow> (Inl (ValueError (''Failed to load image from URL: '' @ msg)), s')
      | Inr content \<Rightarrow>
          (case image_open w content of
             Inl msg \<Rightarrow> (Inl (ValueError (''Failed to load image from URL: '' @ msg)), s')
           | Inr img \<Rightarrow> (Inr img, s')))"

definition load_image_from_bytes :: "'img world \<Rightarrow> bytes \<Rightarrow> exn + 'img" where
  "load_image_from_bytes w image_bytes =
     (case image_open w image_bytes of
        Inl msg \<Rightarrow> Inl (ValueError (''Failed to load image: '' @ msg))
      | Inr img \<Rightarrow> Inr img)"

text \<open>
  \<open>np.dot\<close> on two one-dimensional sequences: the sum of the products of the
  components, and a \<open>ValueError\<close> when the lengths differ.
\<close>

definition np_dot :: "real list \<Rightarrow> real list \<Rightarrow> exn + real" where
  "np_dot a b =
     (if length a \<noteq> length b then Inl (ShapeError (length a) (length b))
      else Inr (sum_list (map2 (*) a b)))"

definition calculate_cosine_similarity :: "real list \<Rightarrow> real list \<Rightarrow> exn + real" where
  "calculate_cosine_similarity emb1 emb2 = np_dot emb1 emb2"

section \<open>The search routes (lines 174-262)\<close>

text \<open>Python's truth value of an optional string or list: \<open>None\<close> and the empty one are false.\<close>

definition truthy :: "'a list option \<Rightarrow> bool" where
  "truthy v = (case v of None \<Rightarrow> False | Some xs \<Rightarrow> xs \<noteq> [])"

text \<open>The two queries the routes build: \<open>{}\<close> and \<open>{"category": category}\<close>.\<close>

datatype filter_query = Empty_query | Category_query string

fun matches :: "filter_query \<Rightarrow> document \<Rightarrow> bool" where
  "matches Empty_query d = True"
| "matches (Category_query c) d = (doc_category d = c)"

definition db_find :: "filter_query \<Rightarrow> state \<Rightarrow> document list" where
  "db_find filter_query s = filter (matches filter_query) (db_products s)"

text \<open>\<open>cursor.to_list(n)\<close>: at most the first \<open>n\<close> documents of the cursor.\<close>

definition to_list :: "nat \<Rightarrow> 'a list \<Rightarrow> 'a list" where
  "to_list n cursor = take n cursor"

text \<open>
  Lines 192-193 (and 235-236): the candidates of a search.
  \<^verbatim>\<open>
  filter_query = {} if not category else {"category": category}
  products = await db.products.find(filter_query, {"_id": 0}).to_list(1000)
  \<close>
\<close>

definition search_candidates :: "string option \<Rightarrow> state \<Rightarrow> document list" where
  "search_candidates category s =
     (let filter_query =
            (if \<not> truthy category then Empty_query
             else Category_query (case category of Some c \<Rightarrow> c | None \<Rightarrow> []))
      in to_list 1000 (db_find filter_query s))"

text \<open>The dictionary appended to \<open>results\<close> (lines 204-212).\<close>

definition result_entry :: "document \<Rightarrow> real \<Rightarrow> SimilarProduct" where
  "result_entry product similarity =
     \<lparr>sp_id = doc_id product, sp_name = doc_name product,
      sp_category = doc_category product, sp_image_url = doc_image_url product,
      sp_price = doc_price product, sp_description = doc_description product,
      similarity_score = similarity\<rparr>"

text \<open>
  Lines 196-212 (and 239-255): the loop over the candidates, with \<open>results\<close> as the
  accumulator. An exception of \<open>calculate_cosine_similarity\<close> leaves the loop.
  \<^verbatim>\<open>
  results = []
  for product in products:
      if product.get('embedding'):
          similarity = calculate_cosine_similarity(query_embedding.tolist(),
                                                   product['embedding'])
          if similarity >= min_similarity:
              results.append({...})
  \<close>
\<close>

fun calculate_similarities ::
  "real list \<Rightarrow> real \<Rightarrow> document list \<Rightarrow> SimilarProduct list \<Rightarrow> exn + SimilarProduct list"
where
  "calculate_similarities query_embedding min_similarity [] results = Inr results"
| "calculate_similarities query_embedding min_similarity (product # products) results =
     (if truthy (doc_embedding product) then
        (case calculate_cosine_similarity query_embedding
                (case doc_embedding product of Some e \<Rightarrow> e | None \<Rightarrow> []) of
           Inl e \<Rightarrow> Inl e
         | Inr similarity \<Rightarrow>
             if similarity \<ge> min_similarity then
               calculate_similarities query_embedding min_similarity products
                 (results @ [result_entry product similarity])
             else calculate_similarities query_embedding min_similarity products results)
      else calculate_similarities query_embedding min_similarity products results)"

text \<open>
  \<open>list.sort(key=..., reverse=True)\<close>: Python's sort is stable, and with
  \<open>reverse=True\<close> it reverses the list, sorts it stably in ascending order and
  reverses it again. \<open>sort_key\<close> is the library's stable insertion sort.
\<close>

definition sort_reverse :: "('a \<Rightarrow> real) \<Rightarrow> 'a list \<Rightarrow> 'a list" where
  "sort_reverse key xs = rev (sort_key key (rev xs))"

text \<open>
  The slice \<open>xs[:stop]\<close> for an integer \<open>stop\<close>: the first \<open>stop\<close> elements, and for a
  negative \<open>stop\<close> all but the last \<open>-stop\<close>.
\<close>

definition slice_to :: "'a list \<Rightarrow> int \<Rightarrow> 'a list" where
  "slice_to xs stop =
     (if 0 \<le> stop then take (nat stop) xs else take (length xs - nat (- stop)) xs)"

text \<open>
  Lines 191-216 of \<open>search_by_upload\<close> and lines 234-259 of \<open>search_by_url\<close> are the same
  statements; they are modelled once, as a function of the query embedding.
\<close>

definition search_products ::
  "real list \<Rightarrow> int \<Rightarrow> real \<Rightarrow> string option \<Rightarrow> state \<Rightarrow> exn + SimilarProduct list" where
  "search_products query_embedding limit min_similarity category s =
     (case calculate_similarities query_embedding min_similarity
             (search_candidates category s) [] of
        Inl e \<Rightarrow> Inl e
      | Inr results \<Rightarrow> Inr (slice_to (sort_reverse similarity_score results) limit))"

text \<open>\<open>Form(default)\<close>: the value of a form field, or the default when the field is absent.\<close>

definition Form :: "'a \<Rightarrow> 'a option \<Rightarrow> 'a" where
  "Form dflt field = (case field of None \<Rightarrow> dflt | Some v \<Rightarrow> v)"

text \<open>
  \<open>search_by_upload\<close>, lines 174-219. The optional arguments are the form fields
  \<open>limit\<close>, \<open>min_similarity\<close> and \<open>category\<close> as the request gives them.
\<close>

definition search_by_upload ::
  "'img world \<Rightarrow> bytes \<Rightarrow> int option \<Rightarrow> real option \<Rightarrow> string option \<Rightarrow> state
     \<Rightarrow> (http_error + SimilarProduct list) \<times> state" where
  "search_by_upload w file_content limit_field min_similarity_field category s =
     (let limit = Form 10 limit_field;
          min_similarity = Form 0.3 min_similarity_field
      in case embedder w of
           None \<Rightarrow> (Inl (HTTPException 503 ClipNotAvailable), s)
         | Some get_image_embedding \<Rightarrow>
             (case load_image_from_bytes w file_content of
                Inl e \<Rightarrow> (Inl (HTTPException 500 (ErrorSearching e)), s)
              | Inr img \<Rightarrow>
                  (case get_image_embedding img of
                     Inl msg \<Rightarrow> (Inl (HTTPException 500 (ErrorSearching (Exception msg))), s)
                   | Inr query_embedding \<Rightarrow>
                       (case search_products query_embedding limit min_similarity category s of
                          Inl e \<Rightarrow> (Inl (HTTPException 500 (ErrorSearching e)), s)
                        | Inr results \<Rightarrow> (Inr results, s)))))"

text \<open>\<open>search_by_url\<close>, lines 221-262.\<close>

definition search_by_url ::
  "'img world \<Rightarrow> string \<Rightarrow> int option \<Rightarrow> real option \<Rightarrow> string option \<Rightarrow> state
     \<Rightarrow> (http_error + SimilarProduct list) \<times> state" where
  "search_by_url w url limit_field min_similarity_field category s =
     (let limit = Form 10 limit_field;
          min_similarity = Form 0.3 min_similarity_field
      in case embedder w of
           None \<Rightarrow> (Inl (HTTPException 503 ClipNotAvailable), s)
         | Some get_image_embedding \<Rightarrow>
             (case load_image_from_url w url s of
                (Inl e, s') \<Rightarrow> (Inl (HTTPException 500 (ErrorSearching e)), s')
              | (Inr img, s') \<Rightarrow>
                  (case get_image_embedding img of
                     Inl msg \<Rightarrow> (Inl (HTTPException 500 (ErrorSearching (Exception msg))), s')
                   | Inr query_embedding \<Rightarrow>
                       (case search_products query_embedding limit min_similarity category s' of
                          Inl e \<Rightarrow> (Inl (HTTPException 500 (ErrorSearching e)), s')
                        | Inr results \<Rightarrow> (Inr results, s')))))"

section \<open>Creating products (lines 134-157)\<close>

text \<open>\<open>db.products.insert_one(doc)\<close>: appends the document, or raises.\<close>

definition insert_one :: "'img world \<Rightarrow> document \<Rightarrow> state \<Rightarrow> (string + unit) \<times> state" where
  "insert_one w doc s =
     (case insert_one_raises w doc of
        Some msg \<Rightarrow> (Inl msg, s)
      | None \<Rightarrow> (Inr (), s\<lparr>db_products := db_products s @ [doc]\<rparr>))"

text \<open>
  The constructor call \<open>Product(name=..., ..., embedding=...)\<close>: \<open>id\<close> and \<open>created_at\<close>
  come from their default factories.
\<close>

definition new_Product ::
  "'img world \<Rightarrow> string \<Rightarrow> string \<Rightarrow> string \<Rightarrow> real option \<Rightarrow> string option \<Rightarrow> real list
     \<Rightarrow> state \<Rightarrow> Product \<times> state" where
  "new_Product w name category image_url price description embedding s =
     (\<lparr>prod_id = uuid4 w (built s), prod_name = name, prod_category = category,
       prod_image_url = image_url, prod_price = price, prod_description = description,
       prod_embedding = embedding, prod_created_at = utcnow w (built s)\<rparr>,
      s\<lparr>built := built s + 1\<rparr>)"

definition create_product ::
  "'img world \<Rightarrow> ProductCreate \<Rightarrow> state \<Rightarrow> (http_error + Product) \<times> state" where
  "create_product w product s =
     (case embedder w of
        None \<Rightarrow> (Inl (HTTPException 503 ClipNotAvailable), s)
      | Some get_image_embedding \<Rightarrow>
          (case load_image_from_url w (pc_image_url product) s of
             (Inl e, s1) \<Rightarrow> (Inl (HTTPException 500 (ErrorCreatingProduct e)), s1)
           | (Inr img, s1) \<Rightarrow>
               (case get_image_embedding img of
                  Inl msg \<Rightarrow>
                    (Inl (HTTPException 500 (ErrorCreatingProduct (Exception msg))), s1)
                | Inr embedding \<Rightarrow>
                    (case new_Product w (pc_name product) (pc_category product)
                            (pc_image_url product) (pc_price product)
                            (pc_description product) embedding s1 of
                       (product_obj, s2) \<Rightarrow>
                         (case insert_one w (model_dump product_obj) s2 of
                            (Inl msg, s3) \<Rightarrow>
                              (Inl (HTTPException 500 (ErrorCreatingProduct (Exception msg))), s3)
                          | (Inr u, s3) \<Rightarrow> (Inr product_obj, s3))))))"

section \<open>Seeding (lines 264-388)\<close>

text \<open>One dictionary of \<open>sample_products\<close>.\<close>

record sample =
  s_name :: string
  s_category :: string
  s_price :: real
  s_image_url :: string

text \<open>The list \<open>sample_products\<close>, lines 276-355.\<close>

definition sample_products :: "sample list" where
  "sample_products = [
    \<lparr>s_name = ''MacBook Pro 16'', s_category = ''Electronics'', s_price = 2499,
      s_image_url = ''https://images.unsplash.com/photo-1517336714731-489689fd1ca8?w=500''\<rparr>,
    \<lparr>s_name = ''Dell XPS 15'', s_category = ''Electronics'', s_price = 1899,
      s_image_url = ''https://images.unsplash.com/photo-1593642632823-8f785ba67e45?w=500''\<rparr>,
    \<lparr>s_name = ''HP Spectre x360'', s_category = ''Electronics'', s_price = 1599,
      s_image_url = ''https://images.unsplash.com/photo-1496181133206-80ce9b88a853?w=500''\<rparr>,
    \<lparr>s_name = ''Lenovo ThinkPad'', s_category = ''Electronics'', s_price = 1299,
      s_image_url = ''https://images.unsplash.com/photo-1588872657578-7efd1f1555ed?w=500''\<rparr>,
    \<lparr>s_name = ''ASUS ROG Gaming Laptop'', s_category = ''Electronics'', s_price = 1799,
      s_image_url = ''https://images.unsplash.com/photo-1603302576837-37561b2e2302?w=500''\<rparr>,
    \<lparr>s_name = ''iPhone 15 Pro'', s_category = ''Electronics'', s_price = 999,
      s_image_url = ''https://images.unsplash.com/photo-1592286927505-0485968717fc?w=500''\<rparr>,
    \<lparr>s_name = ''Samsung Galaxy S24'', s_category = ''Electronics'', s_price = 899,
      s_image_url = ''https://images.unsplash.com/photo-1610945415295-d9bbf067e59c?w=500''\<rparr>,
    \<lparr>s_name = ''Google Pixel 8'', s_category = ''Electronics'', s_price = 799,
      s_image_url = ''https://images.unsplash.com/photo-1598327105666-5b89351aff97?w=500''\<rparr>,
    \<lparr>s_name = ''OnePlus 12'', s_category = ''Electronics'', s_price = 699,
      s_image_url = ''https://images.unsplash.com/photo-1511707171634-5f897ff02aa9?w=500''\<rparr>,
    \<lparr>s_name = ''Nike Air Max'', s_category = ''Fashion'', s_price = 150,
      s_image_url = ''https://images.unsplash.com/photo-1542291026-7eec264c27ff?w=500''\<rparr>,
    \<lparr>s_name = ''Adidas Ultraboost'', s_category = ''Fashion'', s_price = 180,
      s_image_url = ''https://images.unsplash.com/photo-1608231387042-66d1773070a5?w=500''\<rparr>,
    \<lparr>s_name = ''Converse Chuck Taylor'', s_category = ''Fashion'', s_price = 65,
      s_image_url = ''https://images.unsplash.com/photo-1607522370275-f14206abe5d3?w=500''\<rparr>,
    \<lparr>s_name = ''Vans Old Skool'', s_category = ''Fashion'', s_price = 70,
      s_image_url = ''https://images.unsplash.com/photo-1525966222134-fcfa99b8ae77?w=500''\<rparr>,
    \<lparr>s_name = ''Puma RS-X'', s_category = ''Fashion'', s_price = 110,
      s_image_url = ''https://images.unsplash.com/photo-1606107557195-0e29a4b5b4aa?w=500''\<rparr>,
    \<lparr>s_name = ''Leather Jacket'', s_category = ''Fashion'', s_price = 299,
      s_image_url = ''https://images.unsplash.com/photo-1551028719-00167b16eac5?w=500''\<rparr>,
    \<lparr>s_name = ''Denim Jacket'', s_category = ''Fashion'', s_price = 89,
      s_image_url = ''https://images.unsplash.com/photo-1576995853123-5a10305d93c0?w=500''\<rparr>,
    \<lparr>s_name = ''Hoodie Sweatshirt'', s_category = ''Fashion'', s_price = 59,
      s_image_url = ''https://images.unsplash.com/photo-1556821840-3a63f95609a7?w=500''\<rparr>,
    \<lparr>s_name = ''T-Shirt Pack'', s_category = ''Fashion'', s_price = 29,
      s_image_url = ''https://images.unsplash.com/photo-1521572163474-6864f9cf17ab?w=500''\<rparr>,
    \<lparr>s_name = ''Office Chair Ergonomic'', s_category = ''Furniture'', s_price = 349,
      s_image_url = ''https://images.unsplash.com/photo-1580480055273-228ff5388ef8?w=500''\<rparr>,
    \<lparr>s_name = ''Gaming Chair'', s_category = ''Furniture'', s_price = 299,
      s_image_url = ''https://images.unsplash.com/photo-1598550476439-6847785fcea6?w=500''\<rparr>,
    \<lparr>s_name = ''Wooden Dining Chair'', s_category = ''Furniture'', s_price = 129,
      s_image_url = ''https://images.unsplash.com/photo-1503602642458-232111445657?w=500''\<rparr>,
    \<lparr>s_name = ''Recliner Armchair'', s_category = ''Furniture'', s_price = 599,
      s_image_url = ''https://images.unsplash.com/photo-1567538096630-e0c55bd6374c?w=500''\<rparr>,
    \<lparr>s_name = ''Coffee Table Modern'', s_category = ''Furniture'', s_price = 199,
      s_image_url = ''https://images.unsplash.com/photo-1618219740975-d40978bb7378?w=500''\<rparr>,
    \<lparr>s_name = ''Dining Table Wood'', s_category = ''Furniture'', s_price = 799,
      s_image_url = ''https://images.unsplash.com/photo-1617806118233-18e1de247200?w=500''\<rparr>,
    \<lparr>s_name = ''Standing Desk'', s_category = ''Furniture'', s_price = 449,
      s_image_url = ''https://images.unsplash.com/photo-1595515106969-1ce29566ff1c?w=500''\<rparr>,
    \<lparr>s_name = ''Table Lamp Modern'', s_category = ''Home'', s_price = 79,
      s_image_url = ''https://images.unsplash.com/photo-1507473885765-e6ed057f782c?w=500''\<rparr>,
    \<lparr>s_name = ''Wall Mirror Large'', s_category = ''Home'', s_price = 149,
      s_image_url = ''https://images.unsplash.com/photo-1618221195710-dd6b41faaea6?w=500''\<rparr>,
    \<lparr>s_name = ''Throw Pillows Set'', s_category = ''Home'', s_price = 39,
      s_image_url = ''https://images.unsplash.com/photo-1584100936595-c0654b55a2e2?w=500''\<rparr>,
    \<lparr>s_name = ''Area Rug'', s_category = ''Home'', s_price = 199,
      s_image_url = ''https://images.unsplash.com/photo-1600166898405-da9535204843?w=500''\<rparr>,
    \<lparr>s_name = ''Wall Art Canvas'', s_category = ''Home'', s_price = 89,
      s_image_url = ''https://images.unsplash.com/photo-1513519245088-0e12902e35ca?w=500''\<rparr>,
    \<lparr>s_name = ''Yoga Mat Premium'', s_category = ''Sports'', s_price = 49,
      s_image_url = ''https://images.unsplash.com/photo-1601925260368-ae2f83cf8b7f?w=500''\<rparr>,
    \<lparr>s_name = ''Dumbbell Set'', s_category = ''Sports'', s_price = 199,
      s_image_url = ''https://images.unsplash.com/photo-1517836357463-d25dfeac3438?w=500''\<rparr>,
    \<lparr>s_name = ''Tennis Racket'', s_category = ''Sports'', s_price = 159,
      s_image_url = ''https://images.unsplash.com/photo-1617083278810-f9de9086e4f9?w=500''\<rparr>,
    \<lparr>s_name = ''Basketball Wilson'', s_category = ''Sports'', s_price = 29,
      s_image_url = ''https://images.unsplash.com/photo-1546519638-68e109498ffc?w=500''\<rparr>,
    \<lparr>s_name = ''Running Shoes Pro'', s_category = ''Sports'', s_price = 139,
      s_image_url = ''https://images.unsplash.com/photo-1542291026-7eec264c27ff?w=500''\<rparr>,
    \<lparr>s_name = ''Programming Books Set'', s_category = ''Books'', s_price = 79,
      s_image_url = ''https://images.unsplash.com/photo-1589998059171-988d887df646?w=500''\<rparr>,
    \<lparr>s_name = ''Fiction Novel Collection'', s_category = ''Books'', s_price = 49,
      s_image_url = ''https://images.unsplash.com/photo-1512820790803-83ca734da794?w=500''\<rparr>,
    \<lparr>s_name = ''Coffee Table Book'', s_category = ''Books'', s_price = 39,
      s_image_url = ''https://images.unsplash.com/photo-1497633762265-9d179a990aa6?w=500''\<rparr>,
    \<lparr>s_name = ''Blender High Speed'', s_category = ''Kitchen'', s_price = 99,
      s_image_url = ''https://images.unsplash.com/photo-1570222094114-d054a817e56b?w=500''\<rparr>,
    \<lparr>s_name = ''Coffee Maker'', s_category = ''Kitchen'', s_price = 129,
      s_image_url = ''https://images.unsplash.com/photo-1517668808822-9ebb02f2a0e6?w=500''\<rparr>,
    \<lparr>s_name = ''Knife Set Professional'', s_category = ''Kitchen'', s_price = 149,
      s_image_url = ''https://images.unsplash.com/photo-1593618998160-e34014e67546?w=500''\<rparr>,
    \<lparr>s_name = ''Cookware Set'', s_category = ''Kitchen'', s_price = 199,
      s_image_url = ''https://images.unsplash.com/photo-1556911220-bff31c812dba?w=500''\<rparr>,
    \<lparr>s_name = ''Smartwatch'', s_category = ''Accessories'', s_price = 299,
      s_image_url = ''https://images.unsplash.com/photo-1523275335684-37898b6baf30?w=500''\<rparr>,
    \<lparr>s_name = ''Sunglasses Ray-Ban'', s_category = ''Accessories'', s_price = 159,
      s_image_url = ''https://images.unsplash.com/photo-1511499767150-a48a237f0083?w=500''\<rparr>,
    \<lparr>s_name = ''Backpack Leather'', s_category = ''Accessories'', s_price = 189,
      s_image_url = ''https://images.unsplash.com/photo-1553062407-98eeb64c6a62?w=500''\<rparr>,
    \<lparr>s_name = ''Wallet Bifold'', s_category = ''Accessories'', s_price = 49,
      s_image_url = ''https://images.unsplash.com/photo-1627123424574-724758594e93?w=500''\<rparr>,
    \<lparr>s_name = ''Belt Designer'', s_category = ''Accessories'', s_price = 79,
      s_image_url = ''https://images.unsplash.com/photo-1624222247344-550fb60583aa?w=500''\<rparr>,
    \<lparr>s_name = ''Wireless Headphones'', s_category = ''Electronics'', s_price = 249,
      s_image_url = ''https://images.unsplash.com/photo-1505740420928-5e560c06d30e?w=500''\<rparr>,
    \<lparr>s_name = ''Bluetooth Speaker'', s_category = ''Electronics'', s_price = 99,
      s_image_url = ''https://images.unsplash.com/photo-1608043152269-423dbba4e7e1?w=500''\<rparr>,
    \<lparr>s_name = ''Earbuds Wireless'', s_category = ''Electronics'', s_price = 129,
      s_image_url = ''https://images.unsplash.com/photo-1590658268037-6bf12165a8df?w=500''\<rparr>,
    \<lparr>s_name = ''Skincare Set'', s_category = ''Beauty'', s_price = 89,
      s_image_url = ''https://images.unsplash.com/photo-1556228720-195a672e8a03?w=500''\<rparr>,
    \<lparr>s_name = ''Makeup Palette'', s_category = ''Beauty'', s_price = 59,
      s_image_url = ''https://images.unsplash.com/photo-1596704017254-9b121068ec31?w=500''\<rparr>,
    \<lparr>s_name = ''Hair Dryer Professional'', s_category = ''Beauty'', s_price = 149,
      s_image_url = ''https://images.unsplash.com/photo-1522338242992-e1a54906a8da?w=500''\<rparr>]"

text \<open>What the route returns: one of its two JSON objects.\<close>

datatype seed_response = AlreadyContains nat | Seeded nat nat

text \<open>The body of the \<open>try\<close> of the loop, lines 362-377, for one sample.\<close>

definition seed_item ::
  "'img world \<Rightarrow> ('img \<Rightarrow> string + real list) \<Rightarrow> sample \<Rightarrow> state \<Rightarrow> (exn + unit) \<times> state" where
  "seed_item w get_image_embedding product_data s =
     (case load_image_from_url w (s_image_url product_data) s of
        (Inl e, s1) \<Rightarrow> (Inl e, s1)
      | (Inr img, s1) \<Rightarrow>
          (case get_image_embedding img of
             Inl msg \<Rightarrow> (Inl (Exception msg), s1)
           | Inr embedding \<Rightarrow>
               (case new_Product w (s_name product_data) (s_category product_data)
                       (s_image_url product_data) (Some (s_price product_data)) None
                       embedding s1 of
                  (product, s2) \<Rightarrow>
                    (case insert_one w (model_dump product) s2 of
                       (Inl msg, s3) \<Rightarrow> (Inl (Exception msg), s3)
                     | (Inr u, s3) \<Rightarrow> (Inr (), s3)))))"

text \<open>
  The loop of lines 357-382, with the counters \<open>inserted\<close> and \<open>failed\<close>: the
  \<open>except\<close> clause counts the failure and the loop goes on.
\<close>

fun seed_loop ::
  "'img world \<Rightarrow> ('img \<Rightarrow> string + real list) \<Rightarrow> sample list \<Rightarrow> nat \<Rightarrow> nat \<Rightarrow> state
     \<Rightarrow> (nat \<times> nat) \<times> state" where
  "seed_loop w enc [] inserted failed s = ((inserted, failed), s)"
| "seed_loop w enc (product_data # rest) inserted failed s =
     (case seed_item w enc product_data s of
        (Inr u, s') \<Rightarrow> seed_loop w enc rest (inserted + 1) failed s'
      | (Inl e, s') \<Rightarrow> seed_loop w enc rest inserted (failed + 1) s')"

definition seed_products :: "'img world \<Rightarrow> state \<Rightarrow> (http_error + seed_response) \<times> state" where
  "seed_products w s =
     (case embedder w of
        None \<Rightarrow> (Inl (HTTPException 503 ClipNotAvailable), s)
      | Some get_image_embedding \<Rightarrow>
          (let count = length (db_products s) in
           if count > 0 then (Inr (AlreadyContains count), s)
           else (case seed_loop w get_image_embedding sample_products 0 0 s of
                   ((inserted, failed), s') \<Rightarrow> (Inr (Seeded inserted failed), s'))))"

section \<open>The specification's vocabulary\<close>

text \<open>
  The notions the specification uses, stated apart from the code: the fingerprint of a
  record (empty when it has none), the similarity \<open>q \<cdot> f\<close>, the records a ranking
  keeps, and a record whose fingerprint, when it has one, has the query's dimension.
\<close>

definition fingerprint :: "document \<Rightarrow> real list" where
  "fingerprint d = (case doc_embedding d of Some f \<Rightarrow> f | None \<Rightarrow> [])"

definition dot_product :: "real list \<Rightarrow> real list \<Rightarrow> real" where
  "dot_product q f = (\<Sum>i<length q. q ! i * f ! i)"

definition kept :: "real list \<Rightarrow> real \<Rightarrow> document \<Rightarrow> bool" where
  "kept q t d = (fingerprint d \<noteq> [] \<and> t \<le> dot_product q (fingerprint d))"

definition aligned :: "real list \<Rightarrow> document \<Rightarrow> bool" where
  "aligned q d = (fingerprint d = [] \<or> length (fingerprint d) = length q)"

text \<open>The entry a kept record gives: its metadata with its score.\<close>

definition scored :: "real list \<Rightarrow> document \<Rightarrow> SimilarProduct" where
  "scored q d = result_entry d (dot_product q (fingerprint d))"

text \<open>Non-increasing order of the scores.\<close>

definition descending :: "SimilarProduct list \<Rightarrow> bool" where
  "descending rs = sorted_wrt (\<lambda>a b. similarity_score a \<ge> similarity_score b) rs"

text \<open>
  The scan \<open>scan(filter)\<close> of the specification: the records of a category, or all of
  them when there is no filter.
\<close>

definition scan :: "string option \<Rightarrow> state \<Rightarrow> document list" where
  "scan category s =
     (case category of
        None \<Rightarrow> db_products s
      | Some c \<Rightarrow> filter (\<lambda>d. doc_category d = c) (db_products s))"

section \<open>Concrete data\<close>

text \<open>
  A world in which every collaborator works: images are their bytes, and every image
  is encoded as the vector \<open>(1, 0)\<close>.
\<close>

definition good_world :: "bytes world" where
  "good_world =
     \<lparr>embedder = Some (\<lambda>img. Inr [1, 0]), http_get = (\<lambda>url. Inr []),
      image_open = (\<lambda>b. Inr b), uuid4 = (\<lambda>n. ''id''), utcnow = (\<lambda>n. ''2024-01-01''),
      insert_one_raises = (\<lambda>d. None)\<rparr>"

text \<open>The same world with an encoder that failed to load.\<close>

definition no_clip_world :: "bytes world" where
  "no_clip_world = good_world\<lparr>embedder := None\<rparr>"


definition item :: "string \<Rightarrow> string \<Rightarrow> real list option \<Rightarrow> document" where
  "item name category emb =
     \<lparr>doc_id = name, doc_name = name, doc_category = category, doc_image_url = [],
      doc_price = None, doc_description = None, doc_embedding = emb,
      doc_created_at = []\<rparr>"

definition empty_state :: state where
  "empty_state = \<lparr>db_products = [], fetched = [], built = 0\<rparr>"

text \<open>
  The scenario of the specification, with a fifth record that ties with the first:
  scores 0.9, 0.5, 0.85, none and 0.9 against the query \<open>(1, 0)\<close>.
\<close>

definition shop :: state where
  "shop = empty_state\<lparr>db_products :=
     [item ''A'' ''Electronics'' (Some [0.9, 0.1]),
      item ''B'' ''Fashion'' (Some [0.5, 0.5]),
      item ''C'' ''Electronics'' (Some [0.85, 0.2]),
      item ''D'' ''Fashion'' None,
      item ''E'' ''Electronics'' (Some [0.9, 0.3])]\<rparr>"

text \<open>A store with one well-formed record and one record of three components.\<close>

definition corrupt_shop :: state where
  "corrupt_shop = empty_state\<lparr>db_products :=
     [item ''A'' ''Electronics'' (Some [0.9, 0.1]),
      item ''M'' ''Electronics'' (Some [1, 0, 0])]\<rparr>"

text \<open>A store of 1001 records: a thousand copies of one record, then a perfect match.\<close>

definition big_shop :: state where
  "big_shop = empty_state\<lparr>db_products :=
     replicate 1000 (item ''B'' ''Fashion'' (Some [0.5, 0.5]))
       @ [item ''Z'' ''Fashion'' (Some [1, 0])]\<rparr>"

section \<open>Lemmas\<close>

subsection \<open>The ranking: loop, sort and slice\<close>

lemma truthy_fingerprint: "truthy (doc_embedding d) = (fingerprint d \<noteq> [])"
  by (simp add: truthy_def fingerprint_def split: option.splits)

lemma sum_list_map2_nth:
  "length a = length b \<Longrightarrow> sum_list (map2 (*) a b) = (\<Sum>i<length a. a ! i * (b ! i :: real))"
  by (simp add: sum_list_sum_nth atLeast0LessThan)

lemma np_dot_eq:
  "np_dot a b =
     (if length a = length b then Inr (dot_product a b)
      else Inl (ShapeError (length a) (length b)))"
  by (simp add: np_dot_def dot_product_def sum_list_map2_nth)

lemma similarity_step:
  "calculate_similarities q t (d # ds) acc =
     (if fingerprint d = [] then calculate_similarities q t ds acc
      else if length q \<noteq> length (fingerprint d)
        then Inl (ShapeError (length q) (length (fingerprint d)))
      else if t \<le> dot_product q (fingerprint d)
        then calculate_similarities q t ds (acc @ [scored q d])
      else calculate_similarities q t ds acc)"
  by (simp add: truthy_fingerprint calculate_cosine_similarity_def np_dot_eq scored_def)
     (simp add: fingerprint_def)

lemma similarities_aligned:
  "\<forall>d\<in>set ds. aligned q d \<Longrightarrow>
   calculate_similarities q t ds acc = Inr (acc @ map (scored q) (filter (kept q t) ds))"
proof (induction ds arbitrary: acc)
  case Nil
  then show ?case by simp
next
  case (Cons d ds)
  then show ?case
    by (simp only: similarity_step) (auto simp: aligned_def kept_def)
qed

lemma similarities_misaligned:
  "\<exists>d\<in>set ds. \<not> aligned q d \<Longrightarrow>
   \<exists>n. n \<noteq> length q \<and> calculate_similarities q t ds acc = Inl (ShapeError (length q) n)"
proof (induction ds arbitrary: acc)
  case Nil
  then show ?case by simp
next
  case (Cons d ds)
  show ?case
  proof (cases "aligned q d")
    case True
    with Cons.prems have bad: "\<exists>d\<in>set ds. \<not> aligned q d" by auto
    have "\<exists>acc'. calculate_similarities q t (d # ds) acc = calculate_similarities q t ds acc'"
      using True unfolding similarity_step aligned_def by auto
    then obtain acc' where
      "calculate_similarities q t (d # ds) acc = calculate_similarities q t ds acc'" ..
    with Cons.IH [OF bad, of acc'] show ?thesis by simp
  next
    case False
    then have "fingerprint d \<noteq> []" "length (fingerprint d) \<noteq> length q"
      by (simp_all add: aligned_def)
    then have "calculate_similarities q t (d # ds) acc =
        Inl (ShapeError (length q) (length (fingerprint d)))"
      unfolding similarity_step by auto
    with \<open>length (fingerprint d) \<noteq> length q\<close> show ?thesis by blast
  qed
qed

lemma similarities_Inr_aligned:
  assumes "calculate_similarities q t ds acc = Inr rs"
  shows "\<forall>d\<in>set ds. aligned q d"
proof (rule ccontr)
  assume "\<not> (\<forall>d\<in>set ds. aligned q d)"
  then have "\<exists>d\<in>set ds. \<not> aligned q d" by simp
  from similarities_misaligned [OF this, of t acc] assms show False by auto
qed

lemma score_scored: "similarity_score (scored q d) = dot_product q (fingerprint d)"
  by (simp add: scored_def result_entry_def)

lemma descending_sort_reverse: "descending (sort_reverse similarity_score rs)"
proof -
  have "sorted (map similarity_score (sort_key similarity_score (rev rs)))"
    by (rule sorted_sort_key)
  then have "sorted_wrt (\<lambda>a b. similarity_score a \<le> similarity_score b)
      (sort_key similarity_score (rev rs))"
    by (simp add: sorted_wrt_map)
  then show ?thesis
    by (simp add: descending_def sort_reverse_def sorted_wrt_rev)
qed

lemma stable_sort_reverse:
  "filter (\<lambda>r. key r = v) (sort_reverse key rs) = filter (\<lambda>r. key r = v) rs"
proof -
  have "filter (\<lambda>r. key r = v) (sort_reverse key rs) =
      rev (filter (\<lambda>r. key r = v) (sort_key key (rev rs)))"
    by (simp add: sort_reverse_def rev_filter)
  also have "\<dots> = rev (filter (\<lambda>r. key r = v) (rev rs))"
    by (simp only: sort_key_stable)
  also have "\<dots> = filter (\<lambda>r. key r = v) rs"
    by (simp add: rev_filter)
  finally show ?thesis .
qed

lemma set_sort_reverse: "set (sort_reverse key rs) = set rs"
  by (simp add: sort_reverse_def)

lemma length_sort_reverse: "length (sort_reverse key rs) = length rs"
  by (simp add: sort_reverse_def)

lemma slice_to_take: "\<exists>n. slice_to xs k = take n xs"
  by (auto simp: slice_to_def)

lemma slice_to_nonneg: "0 \<le> k \<Longrightarrow> slice_to xs k = take (nat k) xs"
  by (simp add: slice_to_def)

lemma prefix_filter_take: "prefix (filter P (take n xs)) (filter P xs)"
proof -
  have "filter P xs = filter P (take n xs) @ filter P (drop n xs)"
    by (metis append_take_drop_id filter_append)
  then show ?thesis by (metis prefixI)
qed

lemma search_products_aligned:
  assumes "\<forall>d\<in>set (search_candidates category s). aligned q d"
  shows "search_products q k t category s =
    Inr (slice_to (sort_reverse similarity_score
          (map (scored q) (filter (kept q t) (search_candidates category s)))) k)"
  by (simp add: search_products_def similarities_aligned [OF assms])

lemma search_products_Inr:
  assumes "search_products q k t category s = Inr out"
  shows "out = slice_to (sort_reverse similarity_score
          (map (scored q) (filter (kept q t) (search_candidates category s)))) k"
proof -
  from assms obtain rs where
    rs: "calculate_similarities q t (search_candidates category s) [] = Inr rs"
    by (auto simp: search_products_def split: sum.splits)
  from similarities_Inr_aligned [OF rs]
  have "\<forall>d\<in>set (search_candidates category s). aligned q d" .
  from search_products_aligned [OF this, of k t] assms show ?thesis by simp
qed

lemma search_products_misaligned:
  assumes "\<exists>d\<in>set (search_candidates category s). \<not> aligned q d"
  shows "\<exists>n. n \<noteq> length q \<and> search_products q k t category s = Inl (ShapeError (length q) n)"
proof -
  from similarities_misaligned [OF assms, of t "[]"] obtain n where
    "n \<noteq> length q"
    "calculate_similarities q t (search_candidates category s) [] = Inl (ShapeError (length q) n)"
    by blast
  then show ?thesis by (auto simp: search_products_def)
qed

text \<open>
  Claim C1, as amended. For every query embedding \<open>q\<close>, threshold \<open>t\<close> and candidate
  list in which every fingerprint that is present has the query's dimension, the loop
  returns, in candidate order, one entry for exactly the candidates that have a
  non-empty fingerprint and a similarity \<open>q \<cdot> f \<ge> t\<close> (so a candidate whose similarity
  equals \<open>t\<close> is kept), each with that similarity as its score. The search then returns
  the ranked entries of these candidates up to the limit: whatever the limit, every
  returned entry is the entry of such a candidate, so a candidate without fingerprint
  never appears, and with a limit of at least the number of candidates every such
  candidate has its entry in the result.
\<close>
theorem threshold_filter:
  assumes "\<forall>d\<in>set ds. aligned q d"
  shows "calculate_similarities q t ds [] = Inr (map (scored q) (filter (kept q t) ds)) \<and>
    (search_candidates category s = ds \<longrightarrow>
       search_products q k t category s =
         Inr (slice_to
               (sort_reverse similarity_score (map (scored q) (filter (kept q t) ds))) k) \<and>
       (\<exists>out. search_products q k t category s = Inr out \<and>
          set out \<subseteq> scored q ` {d \<in> set ds. kept q t d} \<and>
          (int (length ds) \<le> k \<longrightarrow>
             set out = scored q ` {d \<in> set ds. kept q t d} \<and>
             length out = length (filter (kept q t) ds))))"
proof (intro conjI impI)
  show "calculate_similarities q t ds [] = Inr (map (scored q) (filter (kept q t) ds))"
    using similarities_aligned [OF assms, of t "[]"] by simp
next
  assume c: "search_candidates category s = ds"
  let ?rs = "map (scored q) (filter (kept q t) ds)"
  let ?sorted = "sort_reverse similarity_score ?rs"
  from assms c have "\<forall>d\<in>set (search_candidates category s). aligned q d" by simp
  from search_products_aligned [OF this, of k t]
  show out: "search_products q k t category s = Inr (slice_to ?sorted k)"
    by (simp add: c)
  have img: "set ?rs = scored q ` {d \<in> set ds. kept q t d}" by auto
  obtain n where "slice_to ?sorted k = take n ?sorted"
    using slice_to_take by blast
  then have "set (slice_to ?sorted k) \<subseteq> set ?rs"
    using set_take_subset [of n ?sorted]
    by (simp add: set_sort_reverse)
  then have sub: "set (slice_to ?sorted k) \<subseteq> scored q ` {d \<in> set ds. kept q t d}"
    by (simp only: img)
  have all: "set (slice_to ?sorted k) = scored q ` {d \<in> set ds. kept q t d} \<and>
      length (slice_to ?sorted k) = length (filter (kept q t) ds)"
    if big: "int (length ds) \<le> k"
  proof -
    have "length ?sorted \<le> length ds"
      by (simp add: length_sort_reverse)
    with big have "0 \<le> k" and "length ?sorted \<le> nat k" by simp_all
    then have "slice_to ?sorted k = ?sorted"
      by (simp add: slice_to_nonneg)
    then show ?thesis
      by (simp only: set_sort_reverse length_sort_reverse img length_map)
  qed
  from out sub all
  show "\<exists>out. search_products q k t category s = Inr out \<and>
      set out \<subseteq> scored q ` {d \<in> set ds. kept q t d} \<and>
      (int (length ds) \<le> k \<longrightarrow>
         set out = scored q ` {d \<in> set ds. kept q t d} \<and>
         length out = length (filter (kept q t) ds))"
    by blast
qed

text \<open>
  Claim C2. Whenever a search returns a sequence, its scores are non-increasing and
  at least the minimal similarity, and
  for every score \<open>v\<close> the returned entries with that score are, in this order, the
  first of the kept candidates with similarity \<open>v\<close> in candidate order: candidates that
  tie keep their relative input order.
\<close>
theorem ranking_sorted_stable:
  assumes "search_products q k t category s = Inr out"
  shows "descending out \<and>
    (\<forall>r\<in>set out. t \<le> similarity_score r) \<and>
    (\<forall>v. prefix (filter (\<lambda>r. similarity_score r = v) out)
           (map (scored q)
              (filter (\<lambda>d. kept q t d \<and> dot_product q (fingerprint d) = v)
                 (search_candidates category s))))"
proof -
  let ?rs = "map (scored q) (filter (kept q t) (search_candidates category s))"
  let ?sorted = "sort_reverse similarity_score ?rs"
  from search_products_Inr [OF assms] obtain n where out: "out = take n ?sorted"
    using slice_to_take [of ?sorted k] by auto
  have "descending ?sorted" by (rule descending_sort_reverse)
  then have d: "descending out"
    unfolding descending_def out by (rule sorted_wrt_take)
  have "prefix (filter (\<lambda>r. similarity_score r = v) out)
         (map (scored q)
            (filter (\<lambda>d. kept q t d \<and> dot_product q (fingerprint d) = v)
               (search_candidates category s)))" for v
  proof -
    have "prefix (filter (\<lambda>r. similarity_score r = v) out)
        (filter (\<lambda>r. similarity_score r = v) ?sorted)"
      unfolding out by (rule prefix_filter_take)
    also have "filter (\<lambda>r. similarity_score r = v) ?sorted =
        filter (\<lambda>r. similarity_score r = v) ?rs"
      by (rule stable_sort_reverse)
    also have "\<dots> = map (scored q)
            (filter (\<lambda>d. kept q t d \<and> dot_product q (fingerprint d) = v)
               (search_candidates category s))"
      by (simp add: filter_map o_def score_scored conj_commute)
    finally show ?thesis .
  qed
  moreover have "\<forall>r\<in>set out. t \<le> similarity_score r"
  proof
    fix r
    assume "r \<in> set out"
    then have "r \<in> set ?sorted"
      unfolding out by (rule in_set_takeD)
    then have "r \<in> set ?rs"
      by (simp only: set_sort_reverse)
    then obtain d where "kept q t d" and "r = scored q d" by auto
    then show "t \<le> similarity_score r"
      by (simp add: score_scored kept_def)
  qed
  ultimately show ?thesis using d by blast
qed

text \<open>
  Claim C5, as amended. For every threshold, every candidate list in which every
  fingerprint that is present has the query's dimension, and every limit \<open>k \<ge> 0\<close>, the
  search returns the first \<open>k\<close> of the ranked survivors, so \<open>min k n\<close> entries when
  \<open>n\<close> candidates survive; with the limit 0 it returns the empty sequence, and when at
  most \<open>k\<close> candidates survive it returns all of them.
\<close>
theorem limit_truncates:
  assumes "\<forall>d\<in>set (search_candidates category s). aligned q d" and "0 \<le> k"
  shows "let survivors = sort_reverse similarity_score
             (map (scored q) (filter (kept q t) (search_candidates category s)))
         in search_products q k t category s = Inr (take (nat k) survivors) \<and>
            search_products q 0 t category s = Inr [] \<and>
            (length survivors \<le> nat k \<longrightarrow> search_products q k t category s = Inr survivors) \<and>
            (\<exists>out. search_products q k t category s = Inr out \<and>
               length out =
                 min (nat k) (length (filter (kept q t) (search_candidates category s))))"
  using search_products_aligned [OF assms(1), of k t]
    search_products_aligned [OF assms(1), of 0 t] assms(2)
  by (simp add: Let_def slice_to_nonneg length_sort_reverse)

subsection \<open>The ranking on the store of the specification's scenario\<close>

lemma dot_product_2 [simp]: "dot_product [a, b] [c, d] = a * c + b * d"
  by (simp add: dot_product_def lessThan_Suc)

lemma fingerprint_item [simp]:
  "fingerprint (item n c e) = (case e of Some f \<Rightarrow> f | None \<Rightarrow> [])"
  by (simp add: fingerprint_def item_def)

lemma shop_candidates: "search_candidates None shop = db_products shop"
  by (simp add: search_candidates_def truthy_def db_find_def to_list_def shop_def empty_state_def)

lemma shop_aligned: "\<forall>d\<in>set (db_products shop). aligned [1, 0] d"
  by (simp add: shop_def empty_state_def aligned_def)

text \<open>
  Witness for C1: the store \<open>shop\<close> with the threshold 0.85, which the record \<open>C\<close>
  meets exactly; the limit 5 is the number of candidates.
\<close>
theorem threshold_filter_witness:
  "calculate_similarities [1, 0] 0.85 (db_products shop) [] =
     Inr [result_entry (item ''A'' ''Electronics'' (Some [0.9, 0.1])) 0.9,
          result_entry (item ''C'' ''Electronics'' (Some [0.85, 0.2])) 0.85,
          result_entry (item ''E'' ''Electronics'' (Some [0.9, 0.3])) 0.9] \<and>
   (\<exists>out. search_products [1, 0] 5 0.85 None shop = Inr out \<and>
      set out = scored [1, 0] ` {d \<in> set (db_products shop). kept [1, 0] 0.85 d} \<and>
      length out = 3)"
proof -
  have ev: "map (scored [1, 0]) (filter (kept [1, 0] 0.85) (db_products shop)) =
     [result_entry (item ''A'' ''Electronics'' (Some [0.9, 0.1])) 0.9,
      result_entry (item ''C'' ''Electronics'' (Some [0.85, 0.2])) 0.85,
      result_entry (item ''E'' ''Electronics'' (Some [0.9, 0.3])) 0.9]"
    by (simp add: shop_def empty_state_def kept_def scored_def)
  have n: "int (length (db_products shop)) \<le> 5"
    by (simp add: shop_def empty_state_def)
  have "length (filter (kept [1, 0] 0.85) (db_products shop)) = 3"
    using arg_cong [OF ev, of length] by simp
  with threshold_filter [OF shop_aligned, where t = "0.85" and category = None
      and s = shop and k = 5] shop_candidates ev n
  show ?thesis by auto
qed

lemma shop_search:
  "search_products [1, 0] 10 0.6 None shop =
     Inr [result_entry (item ''A'' ''Electronics'' (Some [0.9, 0.1])) 0.9,
          result_entry (item ''E'' ''Electronics'' (Some [0.9, 0.3])) 0.9,
          result_entry (item ''C'' ''Electronics'' (Some [0.85, 0.2])) 0.85]"
proof -
  have "map (scored [1, 0]) (filter (kept [1, 0] 0.6) (db_products shop)) =
     [result_entry (item ''A'' ''Electronics'' (Some [0.9, 0.1])) 0.9,
      result_entry (item ''C'' ''Electronics'' (Some [0.85, 0.2])) 0.85,
      result_entry (item ''E'' ''Electronics'' (Some [0.9, 0.3])) 0.9]"
    by (simp add: shop_def empty_state_def kept_def scored_def)
  with search_products_aligned [where category = None and s = shop and q = "[1, 0]" and k = 10 and t = "0.6"] shop_aligned shop_candidates
  show ?thesis
    by (simp add: sort_reverse_def slice_to_def result_entry_def)
qed

text \<open>
  Witness for C2: in \<open>shop\<close> the records \<open>A\<close> and \<open>E\<close> tie at 0.9 and are returned in
  this order, before \<open>C\<close>.
\<close>
theorem ranking_sorted_stable_witness:
  "descending
     [result_entry (item ''A'' ''Electronics'' (Some [0.9, 0.1])) 0.9,
      result_entry (item ''E'' ''Electronics'' (Some [0.9, 0.3])) 0.9,
      result_entry (item ''C'' ''Electronics'' (Some [0.85, 0.2])) 0.85] \<and>
   prefix
     (filter (\<lambda>r. similarity_score r = 0.9)
        [result_entry (item ''A'' ''Electronics'' (Some [0.9, 0.1])) 0.9,
         result_entry (item ''E'' ''Electronics'' (Some [0.9, 0.3])) 0.9,
         result_entry (item ''C'' ''Electronics'' (Some [0.85, 0.2])) 0.85])
     (map (scored [1, 0])
        (filter (\<lambda>d. kept [1, 0] 0.6 d \<and> dot_product [1, 0] (fingerprint d) = 0.9)
           (search_candidates None shop)))"
  using ranking_sorted_stable [OF shop_search] by blast

text \<open>Witness for C5: the limits 2 and 0 on \<open>shop\<close>, where three candidates survive.\<close>
theorem limit_truncates_witness:
  "search_products [1, 0] 2 0.6 None shop =
     Inr [result_entry (item ''A'' ''Electronics'' (Some [0.9, 0.1])) 0.9,
          result_entry (item ''E'' ''Electronics'' (Some [0.9, 0.3])) 0.9] \<and>
   search_products [1, 0] 0 0.6 None shop = Inr []"
proof -
  have a: "\<forall>d\<in>set (search_candidates None shop). aligned [1, 0] d"
    using shop_aligned by (simp add: shop_candidates)
  have k: "(0::int) \<le> 2" by simp
  have ev: "sort_reverse similarity_score
      (map (scored [1, 0]) (filter (kept [1, 0] 0.6) (search_candidates None shop))) =
     [result_entry (item ''A'' ''Electronics'' (Some [0.9, 0.1])) 0.9,
      result_entry (item ''E'' ''Electronics'' (Some [0.9, 0.3])) 0.9,
      result_entry (item ''C'' ''Electronics'' (Some [0.85, 0.2])) 0.85]"
    by (simp add: shop_candidates)
       (simp add: shop_def empty_state_def kept_def scored_def sort_reverse_def
          result_entry_def)
  from limit_truncates [OF a k, where t = "0.6"] show ?thesis
    unfolding Let_def ev by simp
qed

subsection \<open>The search routes: candidates, failures, defaults\<close>

lemma search_candidates_fetched:
  "search_candidates category (s\<lparr>fetched := x\<rparr>) = search_candidates category s"
  by (simp add: search_candidates_def db_find_def)

lemma search_products_fetched:
  "search_products q k t category (s\<lparr>fetched := x\<rparr>) = search_products q k t category s"
  by (simp add: search_products_def search_candidates_fetched)

lemma load_image_from_url_state:
  "load_image_from_url w url s = (r, s') \<Longrightarrow> s' = s\<lparr>fetched := fetched s @ [url]\<rparr>"
  by (auto simp: load_image_from_url_def Let_def split: sum.splits)

lemma search_by_upload_encoded:
  assumes "embedder w = Some enc" and "load_image_from_bytes w file_content = Inr img"
    and "enc img = Inr q"
  shows "search_by_upload w file_content l m category s =
    (case search_products q (Form 10 l) (Form 0.3 m) category s of
       Inl e \<Rightarrow> (Inl (HTTPException 500 (ErrorSearching e)), s)
     | Inr rs \<Rightarrow> (Inr rs, s))"
  by (simp add: search_by_upload_def assms)

lemma search_by_url_encoded:
  assumes "embedder w = Some enc" and "load_image_from_url w url s = (Inr img, s')"
    and "enc img = Inr q"
  shows "search_by_url w url l m category s =
    (case search_products q (Form 10 l) (Form 0.3 m) category s of
       Inl e \<Rightarrow> (Inl (HTTPException 500 (ErrorSearching e)), s')
     | Inr rs \<Rightarrow> (Inr rs, s'))"
proof -
  from load_image_from_url_state [OF assms(2)]
  have "search_products q (Form 10 l) (Form 0.3 m) category s' =
      search_products q (Form 10 l) (Form 0.3 m) category s"
    by (simp add: search_products_fetched)
  then show ?thesis
    by (simp add: search_by_url_def assms)
qed

text \<open>
  Whatever a search route returns is what the shared block returns for some query
  embedding; the search by upload leaves the state unchanged and the search by URL
  records the fetch of its image.
\<close>
lemma search_by_upload_returns:
  "search_by_upload w file_content l m category s = (Inr out, s') \<Longrightarrow>
   s' = s \<and> (\<exists>q. search_products q (Form 10 l) (Form 0.3 m) category s = Inr out)"
  by (auto simp: search_by_upload_def split: option.splits sum.splits)

lemma search_by_url_returns:
  assumes "search_by_url w url l m category s = (Inr out, s')"
  shows "s' = s\<lparr>fetched := fetched s @ [url]\<rparr> \<and>
    (\<exists>q. search_products q (Form 10 l) (Form 0.3 m) category s = Inr out)"
proof -
  obtain r s1 where ld: "load_image_from_url w url s = (r, s1)"
    by (cases "load_image_from_url w url s")
  from load_image_from_url_state [OF ld]
  have s1: "s1 = s\<lparr>fetched := fetched s @ [url]\<rparr>" .
  from assms ld have "s' = s1 \<and>
      (\<exists>q. search_products q (Form 10 l) (Form 0.3 m) category s1 = Inr out)"
    by (auto simp: search_by_url_def split: option.splits sum.splits)
  then show ?thesis
    by (simp add: s1 search_products_fetched)
qed

lemma matches_Category_query: "matches (Category_query c) = (\<lambda>d. doc_category d = c)"
  by (simp add: fun_eq_iff)

lemma search_candidates_scan:
  "category \<noteq> Some [] \<Longrightarrow> search_candidates category s = take 1000 (scan category s)"
  by (cases category)
     (simp_all add: search_candidates_def truthy_def db_find_def to_list_def scan_def
        matches_Category_query)

lemma search_candidates_empty_string:
  "search_candidates (Some []) s = search_candidates None s"
  by (simp add: search_candidates_def truthy_def)

lemma search_products_empty_string:
  "search_products q k t (Some []) s = search_products q k t None s"
  by (simp add: search_products_def search_candidates_empty_string)

text \<open>
  Claim C3, as amended. For a category that is absent or not the empty string, the
  candidates of a search are the first 1000 documents, in the order of the store, of
  the scan for that category; they are the whole scan whenever it has at most 1000
  documents.
\<close>
theorem candidates_capped:
  assumes "category \<noteq> Some []"
  shows "search_candidates category s = take 1000 (scan category s) \<and>
    (length (scan category s) \<le> 1000 \<longrightarrow> search_candidates category s = scan category s)"
  using search_candidates_scan [OF assms, of s] by simp

text \<open>
  Witness for C3: the scenario of the specification, three records of the category
  Electronics among five.
\<close>
theorem candidates_capped_witness:
  "search_candidates (Some ''Electronics'') shop =
     [item ''A'' ''Electronics'' (Some [0.9, 0.1]),
      item ''C'' ''Electronics'' (Some [0.85, 0.2]),
      item ''E'' ''Electronics'' (Some [0.9, 0.3])]"
proof -
  have c: "Some ''Electronics'' \<noteq> Some []" by simp
  have ev: "scan (Some ''Electronics'') shop =
     [item ''A'' ''Electronics'' (Some [0.9, 0.1]),
      item ''C'' ''Electronics'' (Some [0.85, 0.2]),
      item ''E'' ''Electronics'' (Some [0.9, 0.3])]"
    by (simp add: scan_def shop_def empty_state_def item_def)
  from candidates_capped [OF c, of shop] show ?thesis
    unfolding ev by simp
qed

text \<open>
  Counterexample to C3 as stated: in a store of 1001 records of one category, the last
  record belongs to the scan for that category and is not among the candidates.
\<close>
theorem candidates_not_exhaustive:
  "item ''Z'' ''Fashion'' (Some [1, 0]) \<in> set (scan (Some ''Fashion'') big_shop) \<and>
   item ''Z'' ''Fashion'' (Some [1, 0]) \<notin> set (search_candidates (Some ''Fashion'') big_shop)"
  by (simp add: scan_def search_candidates_def truthy_def db_find_def to_list_def
        big_shop_def empty_state_def item_def)

text \<open>
  Claim C4, as amended. When the encoder is available, the query image is loaded and
  encoded as \<open>q\<close>, and some candidate has a non-empty fingerprint whose dimension
  differs from the one of \<open>q\<close>, both search routes fail as a whole with the status 500,
  reporting the mismatch of the two dimensions; no result is returned.
\<close>
theorem malformed_fingerprint_fails_search:
  assumes "embedder w = Some enc" and "enc img = Inr q"
    and "\<exists>d\<in>set (search_candidates category s). \<not> aligned q d"
  shows "(load_image_from_bytes w file_content = Inr img \<longrightarrow>
            (\<exists>n. n \<noteq> length q \<and> search_by_upload w file_content l m category s =
               (Inl (HTTPException 500 (ErrorSearching (ShapeError (length q) n))), s))) \<and>
         (load_image_from_url w url s = (Inr img, s') \<longrightarrow>
            (\<exists>n. n \<noteq> length q \<and> search_by_url w url l m category s =
               (Inl (HTTPException 500 (ErrorSearching (ShapeError (length q) n))), s')))"
proof -
  from search_products_misaligned [OF assms(3), of "Form 10 l" "Form 0.3 m"]
  obtain n where n: "n \<noteq> length q"
    "search_products q (Form 10 l) (Form 0.3 m) category s = Inl (ShapeError (length q) n)"
    by blast
  show ?thesis
  proof (intro conjI impI)
    assume "load_image_from_bytes w file_content = Inr img"
    from search_by_upload_encoded [OF assms(1) this assms(2), of l m category s] n
    show "\<exists>n. n \<noteq> length q \<and> search_by_upload w file_content l m category s =
        (Inl (HTTPException 500 (ErrorSearching (ShapeError (length q) n))), s)"
      by auto
  next
    assume "load_image_from_url w url s = (Inr img, s')"
    from search_by_url_encoded [OF assms(1) this assms(2), of l m category] n
    show "\<exists>n. n \<noteq> length q \<and> search_by_url w url l m category s =
        (Inl (HTTPException 500 (ErrorSearching (ShapeError (length q) n))), s')"
      by auto
  qed
qed

lemma corrupt_candidates: "search_candidates None corrupt_shop = db_products corrupt_shop"
  by (simp add: search_candidates_def truthy_def db_find_def to_list_def corrupt_shop_def
        empty_state_def)

text \<open>Witness for C4: the search by URL on the store \<open>corrupt_shop\<close>.\<close>
theorem malformed_fingerprint_fails_search_witness:
  "\<exists>n. n \<noteq> 2 \<and> search_by_url good_world ''u'' None None None corrupt_shop =
     (Inl (HTTPException 500 (ErrorSearching (ShapeError 2 n))),
      corrupt_shop\<lparr>fetched := [''u'']\<rparr>)"
proof -
  have e: "embedder good_world = Some (\<lambda>img. Inr [1, 0])"
    by (simp add: good_world_def)
  have bad: "\<exists>d\<in>set (search_candidates None corrupt_shop). \<not> aligned [1, 0] d"
    by (simp add: corrupt_candidates) (simp add: corrupt_shop_def empty_state_def aligned_def)
  have l: "load_image_from_url good_world ''u'' corrupt_shop =
      (Inr [], corrupt_shop\<lparr>fetched := [''u'']\<rparr>)"
    by (simp add: load_image_from_url_def good_world_def corrupt_shop_def empty_state_def)
  from malformed_fingerprint_fails_search [where w = good_world
      and enc = "\<lambda>img. Inr [1, 0]" and img = "[]" and q = "[1, 0]"
      and url = "''u''" and file_content = "[]"
      and l = None and m = None and s' = "corrupt_shop\<lparr>fetched := [''u'']\<rparr>",
      OF e refl bad] l
  show ?thesis by (simp add: numeral_2_eq_2)
qed

text \<open>
  Counterexample to C4 as stated: with one well-formed record and one record of three
  components, the search by upload returns the status 500 and not the entry of the
  well-formed record.
\<close>
theorem malformed_fingerprint_aborts:
  "search_by_upload good_world [] None None None corrupt_shop =
     (Inl (HTTPException 500 (ErrorSearching (ShapeError 2 3))), corrupt_shop)"
  by (simp add: search_by_upload_def good_world_def load_image_from_bytes_def
        search_products_def corrupt_candidates)
     (simp add: corrupt_shop_def empty_state_def truthy_def item_def
        calculate_cosine_similarity_def np_dot_def Form_def)

text \<open>
  Counterexample to C1 as stated: in \<open>corrupt_shop\<close> the record \<open>A\<close> is a candidate, has a
  fingerprint and the similarity 0.9, above the threshold 0.3, and yet it contributes no
  entry: the loop and the search end with the exception raised at the record \<open>M\<close>.
\<close>
theorem kept_candidate_without_entry:
  "item ''A'' ''Electronics'' (Some [0.9, 0.1]) \<in> set (search_candidates None corrupt_shop) \<and>
   kept [1, 0] 0.3 (item ''A'' ''Electronics'' (Some [0.9, 0.1])) \<and>
   calculate_similarities [1, 0] 0.3 (search_candidates None corrupt_shop) [] =
     Inl (ShapeError 2 3) \<and>
   search_products [1, 0] 10 0.3 None corrupt_shop = Inl (ShapeError 2 3)"
  by (simp add: search_products_def corrupt_candidates kept_def)
     (simp add: corrupt_shop_def empty_state_def truthy_def item_def
        calculate_cosine_similarity_def np_dot_def)

text \<open>
  Counterexample to C5 as stated: on \<open>corrupt_shop\<close> a search with the limit 0 returns
  the status 500 and not the empty sequence, since the loop runs before the slice.
\<close>
theorem limit_zero_not_empty:
  "search_products [1, 0] 0 0.3 None corrupt_shop = Inl (ShapeError 2 3) \<and>
   search_by_upload good_world [] (Some 0) None None corrupt_shop =
     (Inl (HTTPException 500 (ErrorSearching (ShapeError 2 3))), corrupt_shop)"
  by (simp add: search_by_upload_def good_world_def load_image_from_bytes_def
        search_products_def corrupt_candidates)
     (simp add: corrupt_shop_def empty_state_def truthy_def item_def
        calculate_cosine_similarity_def np_dot_def Form_def)

text \<open>
  Claim C10, as amended. The empty string as category is the same as no category: the
  candidates are the same and both search routes return the same. The candidates are
  then the first 1000 documents of the whole store, in the order of the store, and all
  documents of the store when it holds at most 1000; they are not the documents whose
  category is the empty string.
\<close>
theorem empty_category_is_no_category:
  "search_candidates (Some []) s = search_candidates None s \<and>
   search_candidates (Some []) s = take 1000 (db_products s) \<and>
   (length (db_products s) \<le> 1000 \<longrightarrow> search_candidates (Some []) s = db_products s) \<and>
   search_by_upload w file_content l m (Some []) s =
     search_by_upload w file_content l m None s \<and>
   search_by_url w url l m (Some []) s = search_by_url w url l m None s"
proof (intro conjI impI)
  show "search_candidates (Some []) s = search_candidates None s"
    by (rule search_candidates_empty_string)
  show c: "search_candidates (Some []) s = take 1000 (db_products s)"
    by (simp add: search_candidates_def truthy_def db_find_def to_list_def)
  show "search_candidates (Some []) s = db_products s"
    if "length (db_products s) \<le> 1000"
    using that by (simp add: c)
  show "search_by_upload w file_content l m (Some []) s =
      search_by_upload w file_content l m None s"
    unfolding search_by_upload_def search_products_empty_string ..
  show "search_by_url w url l m (Some []) s = search_by_url w url l m None s"
    unfolding search_by_url_def search_products_empty_string ..
qed

text \<open>
  In \<open>shop\<close> no record has the empty category, and the empty category gives all five
  records as candidates.
\<close>
lemma empty_category_example:
  "search_candidates (Some []) shop = db_products shop \<and> scan (Some []) shop = []"
  by (simp add: search_candidates_def truthy_def db_find_def to_list_def scan_def shop_def
        empty_state_def item_def)

text \<open>
  Witness for C10: in \<open>shop\<close>, where no record has the empty category, the empty
  category gives the five records of the store, in their order.
\<close>
theorem empty_category_is_no_category_witness:
  "search_candidates (Some []) shop =
     [item ''A'' ''Electronics'' (Some [0.9, 0.1]),
      item ''B'' ''Fashion'' (Some [0.5, 0.5]),
      item ''C'' ''Electronics'' (Some [0.85, 0.2]),
      item ''D'' ''Fashion'' None,
      item ''E'' ''Electronics'' (Some [0.9, 0.3])] \<and>
   search_candidates None shop = search_candidates (Some []) shop"
proof -
  have n: "length (db_products shop) \<le> 1000"
    by (simp add: shop_def empty_state_def)
  have d: "db_products shop =
     [item ''A'' ''Electronics'' (Some [0.9, 0.1]),
      item ''B'' ''Fashion'' (Some [0.5, 0.5]),
      item ''C'' ''Electronics'' (Some [0.85, 0.2]),
      item ''D'' ''Fashion'' None,
      item ''E'' ''Electronics'' (Some [0.9, 0.3])]"
    by (simp add: shop_def empty_state_def)
  from empty_category_is_no_category [of shop] n
  have "search_candidates (Some []) shop = db_products shop"
    and "search_candidates (Some []) shop = search_candidates None shop"
    by blast+
  then show ?thesis by (simp add: d)
qed

text \<open>
  Counterexample to C10 as stated: in a store of 1001 records, the last record is in the
  store and is not a candidate of the search with the empty category.
\<close>
theorem empty_category_not_all_records:
  "item ''Z'' ''Fashion'' (Some [1, 0]) \<in> set (db_products big_shop) \<and>
   item ''Z'' ''Fashion'' (Some [1, 0]) \<notin> set (search_candidates (Some []) big_shop)"
  by (simp add: search_candidates_def truthy_def db_find_def to_list_def
        big_shop_def empty_state_def item_def)

text \<open>
  Claim C8. A search route called without \<open>limit\<close> and without \<open>min_similarity\<close>
  behaves as with the limit 10 and the minimal similarity 0.3, and each of the two
  fields that is absent takes its default on its own; this holds for both routes.
\<close>
theorem search_defaults:
  "search_by_upload w file_content None None category s =
     search_by_upload w file_content (Some 10) (Some 0.3) category s \<and>
   search_by_url w url None None category s =
     search_by_url w url (Some 10) (Some 0.3) category s \<and>
   search_by_upload w file_content l m category s =
     search_by_upload w file_content (Some (case l of None \<Rightarrow> 10 | Some k \<Rightarrow> k))
       (Some (case m of None \<Rightarrow> 0.3 | Some t \<Rightarrow> t)) category s \<and>
   search_by_url w url l m category s =
     search_by_url w url (Some (case l of None \<Rightarrow> 10 | Some k \<Rightarrow> k))
       (Some (case m of None \<Rightarrow> 0.3 | Some t \<Rightarrow> t)) category s"
  by (simp add: search_by_upload_def search_by_url_def Form_def)

subsection \<open>The encoder, creating and seeding\<close>

text \<open>
  Claim C9. When the encoder failed to initialise, each of the four routes that need
  it returns the status 503 with the detail of the missing model and leaves the state
  as it was: no document is written, no image is fetched, no product is built.
\<close>
theorem encoder_unavailable:
  assumes "embedder w = None"
  shows "create_product w product s = (Inl (HTTPException 503 ClipNotAvailable), s) \<and>
    search_by_upload w file_content l m category s =
      (Inl (HTTPException 503 ClipNotAvailable), s) \<and>
    search_by_url w url l m category s = (Inl (HTTPException 503 ClipNotAvailable), s) \<and>
    seed_products w s = (Inl (HTTPException 503 ClipNotAvailable), s)"
  using assms
  by (simp add: create_product_def search_by_upload_def search_by_url_def seed_products_def)

text \<open>Witness for C9: the four routes in the world without encoder.\<close>
theorem encoder_unavailable_witness:
  "create_product no_clip_world
     \<lparr>pc_name = ''Test Product'', pc_category = ''Test'', pc_image_url = ''u'',
      pc_price = Some 99.99, pc_description = None\<rparr> shop =
     (Inl (HTTPException 503 ClipNotAvailable), shop) \<and>
   search_by_upload no_clip_world [] None None None shop =
     (Inl (HTTPException 503 ClipNotAvailable), shop) \<and>
   search_by_url no_clip_world ''u'' None None None shop =
     (Inl (HTTPException 503 ClipNotAvailable), shop) \<and>
   seed_products no_clip_world empty_state =
     (Inl (HTTPException 503 ClipNotAvailable), empty_state)"
proof -
  have e: "embedder no_clip_world = None"
    by (simp add: no_clip_world_def)
  from encoder_unavailable [OF e, of _ shop] encoder_unavailable [OF e, of _ empty_state]
  show ?thesis by blast
qed

lemma load_image_from_url_fetched:
  "fetched (snd (load_image_from_url w url s)) = fetched s @ [url]"
  by (simp add: load_image_from_url_def Let_def split: sum.splits)

lemma load_image_from_url_db:
  "db_products (snd (load_image_from_url w url s)) = db_products s"
  by (simp add: load_image_from_url_def Let_def split: sum.splits)

lemma seed_item_fetched:
  "fetched (snd (seed_item w enc x s)) = fetched s @ [s_image_url x]"
proof -
  obtain r s1 where l: "load_image_from_url w (s_image_url x) s = (r, s1)"
    by (cases "load_image_from_url w (s_image_url x) s")
  from load_image_from_url_fetched [of w "s_image_url x" s] l
  have f: "fetched s1 = fetched s @ [s_image_url x]" by simp
  show ?thesis
    using f
    by (auto simp: seed_item_def l new_Product_def insert_one_def
          split: sum.splits option.splits prod.splits)
qed

lemma seed_item_db:
  "length (db_products (snd (seed_item w enc x s))) =
     (case fst (seed_item w enc x s) of
        Inl e \<Rightarrow> length (db_products s)
      | Inr u \<Rightarrow> length (db_products s) + 1)"
proof -
  obtain r s1 where l: "load_image_from_url w (s_image_url x) s = (r, s1)"
    by (cases "load_image_from_url w (s_image_url x) s")
  from load_image_from_url_db [of w "s_image_url x" s] l
  have f: "db_products s1 = db_products s" by simp
  show ?thesis
    using f
    by (auto simp: seed_item_def l new_Product_def insert_one_def
          split: sum.splits option.splits prod.splits)
qed

lemma seed_loop_invariant:
  "seed_loop w enc xs inserted failed s = ((i, f), s') \<Longrightarrow>
   i + f = inserted + failed + length xs \<and>
   fetched s' = fetched s @ map s_image_url xs \<and>
   length (db_products s') + inserted = length (db_products s) + i"
proof (induction xs arbitrary: inserted failed s)
  case Nil
  then show ?case by simp
next
  case (Cons x xs)
  obtain r s1 where step: "seed_item w enc x s = (r, s1)"
    by (cases "seed_item w enc x s")
  from seed_item_fetched [of w enc x s] step
  have fs: "fetched s1 = fetched s @ [s_image_url x]" by simp
  show ?case
  proof (cases r)
    case (Inl e)
    with Cons.prems step
    have "seed_loop w enc xs inserted (failed + 1) s1 = ((i, f), s')" by simp
    from Cons.IH [OF this] fs seed_item_db [of w enc x s] step Inl
    show ?thesis by simp
  next
    case (Inr u)
    with Cons.prems step
    have "seed_loop w enc xs (inserted + 1) failed s1 = ((i, f), s')" by simp
    from Cons.IH [OF this] fs seed_item_db [of w enc x s] step Inr
    show ?thesis by simp
  qed
qed

lemma length_sample_products: "length sample_products = 53"
  by (simp add: sample_products_def)

lemma seed_products_nonempty:
  "db_products s \<noteq> [] \<Longrightarrow> snd (seed_products w s) = s"
  by (simp add: seed_products_def split: option.splits)

lemma seed_products_found:
  "db_products s \<noteq> [] \<Longrightarrow> embedder w = Some enc \<Longrightarrow>
   seed_products w s = (Inr (AlreadyContains (length (db_products s))), s)"
  by (simp add: seed_products_def)

lemma seed_products_empty:
  assumes "db_products s = []" and "embedder w = Some enc"
  shows "\<exists>i f s'. seed_products w s = (Inr (Seeded i f), s') \<and>
    seed_loop w enc sample_products 0 0 s = ((i, f), s')"
proof -
  obtain i f s' where "seed_loop w enc sample_products 0 0 s = ((i, f), s')"
    by (metis surj_pair)
  with assms show ?thesis by (simp add: seed_products_def)
qed

lemma seed_products_Seeded:
  assumes "seed_products w s = (Inr (Seeded i f), s')"
  shows "\<exists>enc. embedder w = Some enc \<and> db_products s = [] \<and>
    seed_loop w enc sample_products 0 0 s = ((i, f), s')"
  using assms
  by (auto simp: seed_products_def Let_def split: option.splits if_splits prod.splits)

text \<open>
  Claim C6. On a store that holds at least one document, seeding changes nothing: the
  state after the call is the state before it (no insertion, no fetch), and with the
  encoder available the answer is the number of documents found. In particular, after
  a call that inserted at least one record, a second call changes nothing.
\<close>
theorem seed_idempotent:
  "(db_products s \<noteq> [] \<longrightarrow>
      snd (seed_products w s) = s \<and>
      (\<forall>enc. embedder w = Some enc \<longrightarrow>
         fst (seed_products w s) = Inr (AlreadyContains (length (db_products s))))) \<and>
   (seed_products w s = (Inr (Seeded i f), s') \<and> 0 < i \<longrightarrow>
      seed_products w s' = (Inr (AlreadyContains (length (db_products s'))), s'))"
proof (intro conjI impI allI)
  assume "db_products s \<noteq> []"
  then show "snd (seed_products w s) = s" by (rule seed_products_nonempty)
next
  fix enc
  assume "db_products s \<noteq> []" "embedder w = Some enc"
  then show "fst (seed_products w s) = Inr (AlreadyContains (length (db_products s)))"
    by (simp add: seed_products_found)
next
  assume a: "seed_products w s = (Inr (Seeded i f), s') \<and> 0 < i"
  then obtain enc where e: "embedder w = Some enc"
    and l: "seed_loop w enc sample_products 0 0 s = ((i, f), s')"
    using seed_products_Seeded by blast
  from seed_loop_invariant [OF l] a have ne: "db_products s' \<noteq> []" by auto
  from seed_products_found [OF ne e]
  show "seed_products w s' = (Inr (AlreadyContains (length (db_products s'))), s')" .
qed


subsection \<open>Seeding in two concrete worlds\<close>

lemma seed_loop_failed:
  assumes "\<And>x s. isl (fst (seed_item w enc x s)) = bad x"
  shows "seed_loop w enc xs inserted failed s = ((i, f), s') \<Longrightarrow>
    f = failed + length (filter bad xs)"
proof (induction xs arbitrary: inserted failed s)
  case Nil
  then show ?case by simp
next
  case (Cons x xs)
  obtain r s1 where step: "seed_item w enc x s = (r, s1)"
    by (cases "seed_item w enc x s")
  with assms [of x s] have b: "bad x = isl r" by simp
  show ?case
  proof (cases r)
    case (Inl e)
    with Cons.prems step
    have "seed_loop w enc xs inserted (failed + 1) s1 = ((i, f), s')" by simp
    from Cons.IH [OF this] b Inl show ?thesis by simp
  next
    case (Inr u)
    with Cons.prems step
    have "seed_loop w enc xs (inserted + 1) failed s1 = ((i, f), s')" by simp
    from Cons.IH [OF this] b Inr show ?thesis by simp
  qed
qed

lemma seed_item_good_world:
  "isl (fst (seed_item good_world (\<lambda>img. Inr [1, 0]) x s)) = False"
  by (simp add: seed_item_def load_image_from_url_def good_world_def new_Product_def
        insert_one_def)



lemma seed_good_world:
  "\<exists>s'. seed_products good_world empty_state = (Inr (Seeded 53 0), s') \<and>
     length (db_products s') = 53"
proof -
  have e: "embedder good_world = Some (\<lambda>img. Inr [1, 0])"
    by (simp add: good_world_def)
  have d: "db_products empty_state = []"
    by (simp add: empty_state_def)
  from seed_products_empty [OF d e] obtain i f s' where
    r: "seed_products good_world empty_state = (Inr (Seeded i f), s')"
    and l: "seed_loop good_world (\<lambda>img. Inr [1, 0]) sample_products 0 0 empty_state =
      ((i, f), s')"
    by blast
  from seed_loop_failed [OF seed_item_good_world l] have "f = 0" by simp
  with seed_loop_invariant [OF l] d r show ?thesis
    by (simp add: length_sample_products)
qed

text \<open>
  Witness for C6: seeding the empty store twice in a world where everything works; the
  first call inserts the 53 samples, the second finds them and changes nothing.
\<close>
theorem seed_idempotent_witness:
  "\<exists>s'. seed_products good_world empty_state = (Inr (Seeded 53 0), s') \<and>
     seed_products good_world s' = (Inr (AlreadyContains 53), s')"
proof -
  from seed_good_world obtain s' where
    first: "seed_products good_world empty_state = (Inr (Seeded 53 0), s')"
    and n: "length (db_products s') = 53"
    by blast
  from seed_idempotent [of empty_state good_world 53 0 s'] first n
  have "seed_products good_world s' = (Inr (AlreadyContains 53), s')" by simp
  with first show ?thesis by blast
qed


end
